theory Spec2Isabelle
  imports Complex_Main "HOL-Library.Sublist" "HOL-Library.AList"
begin

section \<open>Error-diffusion dithering (\<open>floyd_steinberg_dither\<close> in epub-2bgs.py)\<close>


record raster =
  width :: nat
  height :: nat
  pixels :: "nat \<times> nat \<Rightarrow> int"

text \<open>Python's \<open>round\<close> on a float: to the nearest integer, a tie to the even one.\<close>

definition py_round :: "rat \<Rightarrow> int" where
  "py_round q =
     (let f = \<lfloor>q\<rfloor>; d = q - of_int f
      in if d < 1 / 2 then f
         else if 1 / 2 < d then f + 1
         else if even f then f else f + 1)"

text \<open>Python's \<open>int\<close> on a float: truncation toward zero.\<close>

definition py_int :: "rat \<Rightarrow> int" where
  "py_int q = (if 0 \<le> q then \<lfloor>q\<rfloor> else \<lceil>q\<rceil>)"

text \<open>\<open>max(0, min(255, q))\<close> and the stored value \<open>int(max(0, min(255, q)))\<close>.\<close>

definition clamp255 :: "rat \<Rightarrow> rat" where
  "clamp255 q = max 0 (min 255 q)"

definition store :: "rat \<Rightarrow> int" where
  "store q = py_int (clamp255 q)"

text \<open>\<open>step = 255.0 / (levels - 1)\<close>, \<open>new_pixel = round(old_pixel / step) * step\<close> and
  \<open>error = old_pixel - new_pixel\<close>.\<close>

definition quant_step :: "int \<Rightarrow> rat" where
  "quant_step levels = 255 / of_int (levels - 1)"

definition new_pixel :: "int \<Rightarrow> int \<Rightarrow> rat" where
  "new_pixel levels old =
     of_int (py_round (of_int old / quant_step levels)) * quant_step levels"

definition quant_error :: "int \<Rightarrow> int \<Rightarrow> rat" where
  "quant_error levels old = of_int old - new_pixel levels old"

text \<open>One neighbour update: \<open>pixels[pos] = int(max(0, min(255, float(pixels[pos]) + delta)))\<close>.\<close>

definition diffuse ::
  "(nat \<times> nat \<Rightarrow> int) \<Rightarrow> nat \<times> nat \<Rightarrow> rat \<Rightarrow> (nat \<times> nat \<Rightarrow> int)" where
  "diffuse px pos delta = px(pos := store (of_int (px pos) + delta))"

text \<open>The body of the two loops, at the coordinate \<open>(x, y)\<close>.\<close>

definition dither_pixel :: "int \<Rightarrow> nat \<Rightarrow> nat \<Rightarrow> raster \<Rightarrow> raster" where
  "dither_pixel levels x y img =
     (let w = width img; h = height img;
          old_pixel = pixels img (x, y);
          error = quant_error levels old_pixel;
          p0 = (pixels img)((x, y) := store (new_pixel levels old_pixel));
          p1 = (if x + 1 < w then diffuse p0 (x + 1, y) (error * 7 / 16) else p0);
          p4 = (if y + 1 < h then
                  (let p2 = (if 0 < x then diffuse p1 (x - 1, y + 1) (error * 3 / 16) else p1);
                       p3 = diffuse p2 (x, y + 1) (error * 5 / 16)
                   in if x + 1 < w then diffuse p3 (x + 1, y + 1) (error * 1 / 16) else p3)
                else p1)
      in img\<lparr>pixels := p4\<rparr>)"

text \<open>The inner loop over \<open>x\<close> and the outer loop over \<open>y\<close>.\<close>

definition dither_row :: "int \<Rightarrow> nat \<Rightarrow> nat \<Rightarrow> raster \<Rightarrow> raster" where
  "dither_row levels w y img = fold (\<lambda>x r. dither_pixel levels x y r) [0..<w] img"

definition dither_rows :: "int \<Rightarrow> nat \<Rightarrow> nat \<Rightarrow> raster \<Rightarrow> raster" where
  "dither_rows levels w h img = fold (\<lambda>y r. dither_row levels w y r) [0..<h] img"


text \<open>Rasters written as lists of rows, for concrete inputs and outputs.\<close>

definition raster_of_rows :: "int list list \<Rightarrow> raster" where
  "raster_of_rows rows =
     \<lparr>width = (case rows of [] \<Rightarrow> 0 | r # _ \<Rightarrow> length r), height = length rows,
      pixels = (\<lambda>(x, y). rows ! y ! x)\<rparr>"




section \<open>Strings, \<open>str.replace\<close> and \<open>re.sub\<close>\<close>


text \<open>\<open>os.path.basename\<close>: what follows the last slash.\<close>

definition basename :: "string \<Rightarrow> string" where
  "basename p = rev (takeWhile (\<lambda>c. c \<noteq> CHR ''/'') (rev p))"

text \<open>
  \<open>s.replace(old, new)\<close>: every occurrence of \<open>old\<close>, found from the left without
  overlap, becomes \<open>new\<close>; an empty \<open>old\<close> matches before every character and at the end.
\<close>

function str_replace :: "string \<Rightarrow> string \<Rightarrow> string \<Rightarrow> string" where
  "str_replace [] old new = (if old = [] then new else [])"
| "str_replace (c # cs) old new =
     (if old = [] then new @ c # str_replace cs old new
      else if prefix old (c # cs) then new @ str_replace (drop (length old) (c # cs)) old new
      else c # str_replace cs old new)"
  by pat_completeness auto
termination
  by (relation "measure (\<lambda>(s, old, new). length s)") auto





section \<open>Reference rewriting (\<open>update_xml_references\<close>, \<open>update_css_references\<close>,
  \<open>update_opf_manifest\<close>)\<close>













section \<open>The archive pipeline (\<open>process_epub\<close> in epub-2bgs.py and reduce.py)\<close>

text \<open>
  The scratch tree is what \<open>extract_dir.rglob('*')\<close> yields: the paths under the extraction
  root, relative to it and written with slashes, each a file or a directory, in traversal
  order. pathlib lists a directory before it yields its entries, so a file created while
  the loop runs is not visited by that loop: the loop runs over the tree as extracted.
  The tree records which paths exist, not the bytes of the files.
\<close>

datatype kind = File | Dir


















text \<open>
  Repacking. \<open>ZipFile.write\<close> stores a file under the given name with the given
  compression (the archive's default is \<open>ZIP_DEFLATED\<close>) and a directory as a stored entry
  whose name ends in a slash. The entry \<open>mimetype\<close> is written first when
  \<open>(extract_dir / 'mimetype').exists()\<close>; the loop then writes every file whose
  \<open>file_path.name\<close> is not \<open>mimetype\<close>.
\<close>

datatype compression = ZIP_STORED | ZIP_DEFLATED

record zip_entry =
  arcname :: string
  compress_type :: compression

definition zip_write :: "kind \<Rightarrow> string \<Rightarrow> compression \<Rightarrow> zip_entry" where
  "zip_write k name c =
     (case k of File \<Rightarrow> \<lparr>arcname = name, compress_type = c\<rparr>
              | Dir \<Rightarrow> \<lparr>arcname = name @ ''/'', compress_type = ZIP_STORED\<rparr>)"

definition repack :: "(string \<times> kind) list \<Rightarrow> zip_entry list" where
  "repack fs =
     (case map_of fs ''mimetype'' of
        None \<Rightarrow> []
      | Some k \<Rightarrow> [zip_write k ''mimetype'' ZIP_STORED]) @
     map (\<lambda>e. zip_write File (fst e) ZIP_DEFLATED)
       (filter (\<lambda>e. snd e = File \<and> basename (fst e) \<noteq> ''mimetype'') fs)"


section \<open>Properties of the dithering pass\<close>








lemma diffuse_same: "diffuse px pos d pos = store (of_int (px pos) + d)"
  by (simp add: diffuse_def)

lemma dither_pixel_size [simp]:
  "width (dither_pixel levels x y img) = width img"
  "height (dither_pixel levels x y img) = height img"
  by (simp_all add: dither_pixel_def Let_def)




lemma dither_row_Suc:
  "dither_row levels (Suc n) y r = dither_pixel levels n y (dither_row levels n y r)"
  by (simp add: dither_row_def)

lemma dither_row_0: "dither_row levels 0 y r = r"
  by (simp add: dither_row_def)

lemma dither_row_size [simp]:
  "width (dither_row levels n y r) = width r"
  "height (dither_row levels n y r) = height r"
  by (induction n) (simp_all add: dither_row_Suc dither_row_0)



lemma dither_rows_Suc:
  "dither_rows levels w (Suc m) r = dither_row levels w m (dither_rows levels w m r)"
  by (simp add: dither_rows_def)

lemma dither_rows_0: "dither_rows levels w 0 r = r"
  by (simp add: dither_rows_def)

lemma dither_rows_size [simp]:
  "width (dither_rows levels w m r) = width r"
  "height (dither_rows levels w m r) = height r"
  by (induction m) (simp_all add: dither_rows_Suc dither_rows_0)



text \<open>The theorem at a 3 by 2 raster and the program's 4 levels.\<close>

lemma raster_of_rows_simps [simp]:
  "width (raster_of_rows (r # rs)) = length r"
  "height (raster_of_rows rows) = length rows"
  "pixels (raster_of_rows rows) (x, y) = rows ! y ! x"
  by (simp_all add: raster_of_rows_def)
















section \<open>Properties of repacking\<close>


lemma arcname_zip_write_File [simp]: "arcname (zip_write File name c) = name"
  by (simp add: zip_write_def)

lemma repack_first:
  "map_of fs ''mimetype'' = Some File \<Longrightarrow>
   repack fs = \<lparr>arcname = ''mimetype'', compress_type = ZIP_STORED\<rparr> #
     map (\<lambda>e. zip_write File (fst e) ZIP_DEFLATED)
       (filter (\<lambda>e. snd e = File \<and> basename (fst e) \<noteq> ''mimetype'') fs)"
  by (simp add: repack_def zip_write_def)

lemma repack_cases:
  obtains "repack fs = map (\<lambda>e. zip_write File (fst e) ZIP_DEFLATED)
       (filter (\<lambda>e. snd e = File \<and> basename (fst e) \<noteq> ''mimetype'') fs)"
  | "repack fs = \<lparr>arcname = ''mimetype'', compress_type = ZIP_STORED\<rparr> #
       map (\<lambda>e. zip_write File (fst e) ZIP_DEFLATED)
         (filter (\<lambda>e. snd e = File \<and> basename (fst e) \<noteq> ''mimetype'') fs)"
  | "repack fs = \<lparr>arcname = ''mimetype/'', compress_type = ZIP_STORED\<rparr> #
       map (\<lambda>e. zip_write File (fst e) ZIP_DEFLATED)
         (filter (\<lambda>e. snd e = File \<and> basename (fst e) \<noteq> ''mimetype'') fs)"
proof (cases "map_of fs ''mimetype''")
  case None
  then show ?thesis using that(1) by (simp add: repack_def)
next
  case (Some k)
  then show ?thesis using that(2,3) by (cases k) (simp_all add: repack_def zip_write_def)
qed

lemma repack_names:
  "arcname ` set (repack fs) \<subseteq>
     {''mimetype'', ''mimetype/''} \<union> {p. (p, File) \<in> set fs \<and> basename p \<noteq> ''mimetype''}"
  by (rule repack_cases[of fs]) auto

text \<open>
  Claim C10. Repacking leaves out every file of the scratch tree whose name is
  \<open>mimetype\<close>, in whatever directory: a file such as \<open>OEBPS/mimetype\<close> is in no entry of
  the output archive. The only entry of the archive with that name is the root-level
  \<open>mimetype\<close>, stored without compression; when that file exists it is the first entry
  and no later entry has its name.
\<close>

theorem nested_mimetype_excluded:
  assumes "distinct (map fst fs)"
  shows "(\<forall>p. (p, File) \<in> set fs \<and> basename p = ''mimetype'' \<and> p \<noteq> ''mimetype'' \<longrightarrow>
            p \<notin> arcname ` set (repack fs)) \<and>
         (\<forall>e \<in> set (repack fs). basename (arcname e) = ''mimetype'' \<longrightarrow>
            e = \<lparr>arcname = ''mimetype'', compress_type = ZIP_STORED\<rparr>) \<and>
         ((''mimetype'', File) \<in> set fs \<longrightarrow>
            (\<exists>rest. repack fs = \<lparr>arcname = ''mimetype'', compress_type = ZIP_STORED\<rparr> # rest \<and>
               ''mimetype'' \<notin> arcname ` set rest))"
proof (intro conjI allI impI ballI)
  fix p
  assume p: "(p, File) \<in> set fs \<and> basename p = ''mimetype'' \<and> p \<noteq> ''mimetype''"
  have "basename ''mimetype/'' = []" by (simp add: basename_def)
  with p have "p \<noteq> ''mimetype/''" by auto
  with p show "p \<notin> arcname ` set (repack fs)" using repack_names[of fs] by auto
next
  fix e
  assume e: "e \<in> set (repack fs)" and b: "basename (arcname e) = ''mimetype''"
  have nb: "basename ''mimetype/'' \<noteq> ''mimetype''" by (simp add: basename_def)
  show "e = \<lparr>arcname = ''mimetype'', compress_type = ZIP_STORED\<rparr>"
    by (rule repack_cases[of fs]) (use e b nb in auto)
next
  assume m: "(''mimetype'', File) \<in> set fs"
  with assms have mo: "map_of fs ''mimetype'' = Some File" by simp
  have b: "basename ''mimetype'' = ''mimetype''" by (simp add: basename_def)
  have "''mimetype'' \<notin> arcname ` set (map (\<lambda>e. zip_write File (fst e) ZIP_DEFLATED)
       (filter (\<lambda>e. snd e = File \<and> basename (fst e) \<noteq> ''mimetype'') fs))"
    using b by auto
  then show "\<exists>rest. repack fs = \<lparr>arcname = ''mimetype'', compress_type = ZIP_STORED\<rparr> # rest \<and>
               ''mimetype'' \<notin> arcname ` set rest"
    using repack_first[OF mo] by blast
qed

text \<open>The theorem at a tree that holds \<open>mimetype\<close> and \<open>OEBPS/mimetype\<close>.\<close>

theorem nested_mimetype_excluded_witness:
  "distinct (map fst [(''mimetype'', File), (''OEBPS'', Dir), (''OEBPS/mimetype'', File),
      (''OEBPS/content.opf'', File)]) \<and>
   (''OEBPS/mimetype'', File) \<in> set [(''mimetype'', File), (''OEBPS'', Dir),
      (''OEBPS/mimetype'', File), (''OEBPS/content.opf'', File)] \<and>
   basename ''OEBPS/mimetype'' = ''mimetype'' \<and>
   ''OEBPS/mimetype'' \<notin> arcname ` set (repack [(''mimetype'', File), (''OEBPS'', Dir),
      (''OEBPS/mimetype'', File), (''OEBPS/content.opf'', File)])"
proof -
  let ?fs = "[(''mimetype'', File), (''OEBPS'', Dir), (''OEBPS/mimetype'', File),
      (''OEBPS/content.opf'', File)]"
  have d: "distinct (map fst ?fs)" by simp
  have m: "(''OEBPS/mimetype'', File) \<in> set ?fs" by simp
  have b: "basename ''OEBPS/mimetype'' = ''mimetype''" by (simp add: basename_def)
  have n: "''OEBPS/mimetype'' \<noteq> ''mimetype''" by simp
  from nested_mimetype_excluded[OF d, THEN conjunct1, rule_format, of "''OEBPS/mimetype''"] m b n
  have "''OEBPS/mimetype'' \<notin> arcname ` set (repack ?fs)" by blast
  with d m b show ?thesis by blast
qed

text \<open>
  Claim C4 says that every remaining file of the scratch tree is written after the
  first entry. The loop tests \<open>file_path.name\<close>, not the relative path, against
  \<open>mimetype\<close>, so at this tree the file \<open>OEBPS/mimetype\<close> is written nowhere.
\<close>

theorem repack_drops_nested_mimetype:
  "repack [(''mimetype'', File), (''OEBPS'', Dir), (''OEBPS/mimetype'', File),
      (''OEBPS/content.opf'', File)] =
     [\<lparr>arcname = ''mimetype'', compress_type = ZIP_STORED\<rparr>,
      \<lparr>arcname = ''OEBPS/content.opf'', compress_type = ZIP_DEFLATED\<rparr>]"
  by (simp add: repack_def zip_write_def basename_def)


section \<open>Properties of the image loop\<close>
































section \<open>Properties of \<open>str.replace\<close>\<close>

lemma str_replace_Nil: "old \<noteq> [] \<Longrightarrow> str_replace [] old new = []"
  by simp

lemma str_replace_skip:
  assumes "old \<noteq> []" and "\<forall>i < length d. \<not> prefix old (drop i (d @ r))"
  shows "str_replace (d @ r) old new = d @ str_replace r old new"
  using assms(2)
proof (induction d)
  case Nil
  then show ?case by simp
next
  case (Cons c d)
  from Cons.prems have "\<not> prefix old (c # d @ r)" by force
  moreover have "\<forall>i < length d. \<not> prefix old (drop i (d @ r))"
  proof (intro allI impI)
    fix i assume "i < length d"
    then have "Suc i < length (c # d)" by simp
    with Cons.prems have "\<not> prefix old (drop (Suc i) ((c # d) @ r))" by blast
    then show "\<not> prefix old (drop i (d @ r))" by simp
  qed
  ultimately show ?case using assms(1) Cons.IH by simp
qed


lemma str_replace_no_occurrence:
  assumes "old \<noteq> []" and "\<not> sublist old s"
  shows "str_replace s old new = s"
proof -
  have "\<forall>i < length s. \<not> prefix old (drop i (s @ []))"
  proof (intro allI impI notI)
    fix i assume "i < length s" and "prefix old (drop i (s @ []))"
    then obtain t where "drop i s = old @ t" by (auto simp: prefix_def)
    then have "s = take i s @ old @ t" by (metis append_take_drop_id)
    then have "sublist old s" unfolding sublist_def by blast
    with assms(2) show False by simp
  qed
  from str_replace_skip[OF assms(1) this] show ?thesis using assms(1) by simp
qed



section \<open>Properties of the manifest handler\<close>








section \<open>Properties of matching and substitution\<close>






















section \<open>Running a handler on its own output\<close>





section \<open>A reference in its surroundings\<close>

























section \<open>The markup handler\<close>




section \<open>The style-sheet handler\<close>




end
